theory Spec2Isabelle
  imports Main
begin

section \<open>Python values, exceptions and control outcomes\<close>

text \<open>
  The module \<^verbatim>\<open>ansiblereporter/cli.py\<close> is modelled by explicit state passing.
  A Python exception is a value of \<open>exn\<close>; a statement sequence either returns,
  terminates the process (\<^verbatim>\<open>Script.exit\<close> ends in \<^verbatim>\<open>sys.exit(value)\<close>, i.e. a
  \<^verbatim>\<open>SystemExit\<close> that unwinds the stack) or raises.
\<close>

datatype pyval = PNone | PBool bool | PInt int | PStr string

datatype exn =
    NameError string
  | AttributeError string
  | TypeError string
  | AnsibleError string
  | RunnerError string
  | KeyboardInterrupt
  | OtherError string

datatype 'a outcome = Return 'a | Exit int | Raise exn

text \<open>
  Value of the positional \<^verbatim>\<open>pattern\<close> (\<^verbatim>\<open>nargs='*'\<close>): the list of patterns given on
  the command line, or the default \<^verbatim>\<open>DEFAULT_PATTERN\<close> when none is given.
\<close>

datatype pattern_value = PatternDefault string | PatternList "string list"

text \<open>Observable effects of one process run, in the order they happen.\<close>

datatype event =
    Message string
  | ListHosts string pattern_value
  | GetPass string
  | ReadVaultFile string
  | RunnerNew
  | RunnerRun

datatype runner_handle = RunnerObject

text \<open>
  The fields \<^verbatim>\<open>self.runner\<close> and \<^verbatim>\<open>self.mode\<close> of \<^verbatim>\<open>GenericAnsibleScript\<close>, and the
  log of effects.
\<close>

record script =
  runner :: "runner_handle option"
  mode :: string
  effects :: "event list"

text \<open>
  The \<^verbatim>\<open>argparse\<close> namespace returned by \<^verbatim>\<open>Script.parse_args\<close>. The attributes declared
  by both argument schemas are plain fields. An attribute that only one schema (or none)
  declares has an outer \<open>option\<close>: \<open>None\<close> means the namespace has no such attribute, so
  reading it raises \<^verbatim>\<open>AttributeError\<close> and \<^verbatim>\<open>'pattern' in args\<close> is false.
\<close>

record namespace =
  version :: bool
  inventory :: "string option"
  module_path :: "string option"
  timeout :: int
  user :: "string option"
  become_user :: "string option"
  private_key :: "string option"
  forks :: int
  port :: "int option"
  su :: bool
  become :: bool
  ask_pass :: bool
  ask_become_pass :: bool
  colors :: bool
  args :: "string option"
  pattern :: "pattern_value option"
  module :: "string option"
  playbook :: "string option option"
  show_facts :: "bool option"
  vault_password_file :: "string option option"
  su_user :: "string option option"

datatype vault_secret = VaultFalse | VaultPayload string

text \<open>
  The namespace as \<^verbatim>\<open>GenericAnsibleScript.parse_args\<close> returns it: the parsed namespace
  with the three attributes \<^verbatim>\<open>remote_pass\<close>, \<^verbatim>\<open>become_pass\<close> and \<^verbatim>\<open>vault_pass\<close> assigned.
\<close>

record validated =
  parsed :: namespace
  remote_pass :: "string option"
  become_pass :: "string option"
  vault_pass :: vault_secret

text \<open>Keyword arguments of \<^verbatim>\<open>AnsibleRunner(...)\<close> as \<^verbatim>\<open>AnsibleScript.run\<close> passes them.\<close>

record adhoc_config =
  kw_host_list :: string
  kw_module_path :: "string option"
  kw_module_name :: string
  kw_module_args :: "string option"
  kw_forks :: string
  kw_timeout :: int
  kw_pattern :: pattern_value
  kw_remote_user :: "string option"
  kw_remote_pass :: "string option"
  kw_remote_port :: "int option"
  kw_private_key_file :: "string option"
  kw_su :: bool
  kw_become :: bool
  kw_become_user :: "string option"
  kw_become_pass :: "string option"
  kw_show_colors :: bool

text \<open>Keyword arguments of \<^verbatim>\<open>PlaybookRunner(...)\<close> as \<^verbatim>\<open>PlaybookScript.run\<close> passes them.\<close>

record playbook_config =
  pb_playbook :: string
  pb_host_list :: string
  pb_module_path :: "string option"
  pb_forks :: string
  pb_timeout :: int
  pb_remote_user :: "string option"
  pb_remote_pass :: "string option"
  pb_become_pass :: "string option"
  pb_remote_port :: "int option"
  pb_transport :: string
  pb_private_key_file :: "string option"
  pb_become :: bool
  pb_become_user :: "string option"
  pb_extra_vars :: "string option"
  pb_only_tags :: "string option"
  pb_skip_tags :: "string option"
  pb_subset :: "string option"
  pb_inventory :: "string option"
  pb_check :: bool
  pb_diff :: bool
  pb_any_errors_fatal :: bool
  pb_vault_password :: vault_secret
  pb_force_handlers :: bool
  pb_show_colors :: bool
  pb_show_facts :: bool

text \<open>
  What happens while \<^verbatim>\<open>runner.run()\<close> executes: it returns a result, it raises, or a
  SIGINT is delivered and whatever the handler raises unwinds out of \<^verbatim>\<open>runner.run()\<close>.
\<close>

datatype engine_event = Returns string | Raises exn | Sigint

text \<open>
  The external collaborators: the inventory (\<^verbatim>\<open>Inventory(path).list_hosts(pattern)\<close>),
  \<^verbatim>\<open>getpass.getpass\<close>, \<^verbatim>\<open>utils.read_vault_file\<close>, \<^verbatim>\<open>os.path.realpath\<close>, the two runner
  classes of \<^verbatim>\<open>ansiblereporter.result\<close> (the constructor, which may raise, and what
  \<^verbatim>\<open>run()\<close> of the object built from these keyword arguments does) and the two imported
  version strings.
\<close>

record world =
  list_hosts :: "string \<Rightarrow> pattern_value \<Rightarrow> exn + string list"
  getpass :: "string \<Rightarrow> exn + string"
  read_vault_file :: "string \<Rightarrow> exn + string"
  realpath :: "string option \<Rightarrow> exn + string"
  AnsibleRunner :: "adhoc_config \<Rightarrow> exn + runner_handle"
  AnsibleRunner_run :: "adhoc_config \<Rightarrow> engine_event"
  PlaybookRunner :: "playbook_config \<Rightarrow> exn + runner_handle"
  PlaybookRunner_run :: "playbook_config \<Rightarrow> engine_event"
  ansible_reporter_version :: string
  ansible_version :: string

section \<open>Sequencing\<close>

text \<open>Statement sequencing: a process exit or an exception skips what follows.\<close>

definition and_then ::
  "script \<times> 'a outcome \<Rightarrow> ('a \<Rightarrow> script \<Rightarrow> script \<times> 'b outcome) \<Rightarrow> script \<times> 'b outcome" where
  "and_then m f =
     (case m of
        (s, Return x) \<Rightarrow> f x s
      | (s, Exit c) \<Rightarrow> (s, Exit c)
      | (s, Raise e) \<Rightarrow> (s, Raise e))"

text \<open>Calling an external function that may raise, recording the call.\<close>

definition call :: "event \<Rightarrow> exn + 'a \<Rightarrow> script \<Rightarrow> script \<times> 'a outcome" where
  "call ev r s =
     (s\<lparr>effects := effects s @ [ev]\<rparr>, case r of Inl e \<Rightarrow> Raise e | Inr x \<Rightarrow> Return x)"

text \<open>\<^verbatim>\<open>Script.message\<close> and \<^verbatim>\<open>Script.exit\<close> of \<^verbatim>\<open>systematic.shell\<close>.\<close>

definition message :: "string \<Rightarrow> script \<Rightarrow> script" where
  "message m s = s\<lparr>effects := effects s @ [Message m]\<rparr>"

definition script_exit :: "int \<Rightarrow> string option \<Rightarrow> script \<Rightarrow> script \<times> 'a outcome" where
  "script_exit v msg s = ((case msg of None \<Rightarrow> s | Some m \<Rightarrow> message m s), Exit v)"

text \<open>
  Python truthiness of a value that is \<^verbatim>\<open>None\<close> or a string: \<open>Some t\<close> when the value
  is the non-empty string \<open>t\<close>, \<open>None\<close> when it is \<^verbatim>\<open>None\<close> or the empty string. Then \<^verbatim>\<open>'%s' % x\<close>
  and \<^verbatim>\<open>'%d' % n\<close>.
\<close>

definition truthy :: "string option \<Rightarrow> string option" where
  "truthy x = (case x of None \<Rightarrow> None | Some t \<Rightarrow> if t = [] then None else Some t)"

definition percent_s :: "string option \<Rightarrow> string" where
  "percent_s x = (case x of None \<Rightarrow> ''None'' | Some t \<Rightarrow> t)"

fun digits :: "nat \<Rightarrow> string" where
  "digits n =
     (if n < 10 then [''0123456789'' ! n]
      else digits (n div 10) @ [''0123456789'' ! (n mod 10)])"

definition percent_d :: "int \<Rightarrow> string" where
  "percent_d n = (if n < 0 then CHR ''-'' # digits (nat (- n)) else digits (nat n))"

section \<open>GenericAnsibleScript\<close>

text \<open>\<^verbatim>\<open>__init__\<close>: the fields after construction (no effect has happened yet).\<close>

definition new_script :: script where
  "new_script = \<lparr>runner = None, mode = [], effects = []\<rparr>"

definition SIGINT :: "script \<Rightarrow> script \<times> 'a outcome" where
  "SIGINT s =
     (if runner s \<noteq> None then (s, Raise KeyboardInterrupt)
      else script_exit 1 None s)"

definition show_version :: "world \<Rightarrow> script \<Rightarrow> script" where
  "show_version w s =
     message (ansible_reporter_version w @ '' (ansible '' @ ansible_version w @ '')'') s"

text \<open>Lines 83 to 85.\<close>

definition check_version :: "world \<Rightarrow> namespace \<Rightarrow> script \<Rightarrow> script \<times> unit outcome" where
  "check_version w a s =
     (if version a then script_exit 0 None (show_version w s) else (s, Return ()))"

text \<open>Lines 87 and 88.\<close>

definition check_inventory :: "namespace \<Rightarrow> script \<Rightarrow> script \<times> string outcome" where
  "check_inventory a s =
     (case inventory a of
        None \<Rightarrow> script_exit 1 (Some ''Could not detect default inventory path'') s
      | Some path \<Rightarrow> (s, Return path))"

text \<open>Lines 90 and 91; \<^verbatim>\<open>and\<close> evaluates its right operand only if the left one holds.\<close>

definition check_pattern ::
  "world \<Rightarrow> string \<Rightarrow> namespace \<Rightarrow> script \<Rightarrow> script \<times> unit outcome" where
  "check_pattern w path a s =
     (case pattern a of
        None \<Rightarrow> (s, Return ())
      | Some p \<Rightarrow>
          and_then (call (ListHosts path p) (list_hosts w path p) s)
            (\<lambda>hosts s. if hosts = [] then script_exit 1 (Some ''No hosts matched'') s
                        else (s, Return ())))"

text \<open>Lines 93 to 96 and 98 to 101.\<close>

definition resolve_remote_pass ::
  "world \<Rightarrow> namespace \<Rightarrow> script \<Rightarrow> script \<times> string option outcome" where
  "resolve_remote_pass w a s =
     (if ask_pass a then
        and_then
          (call (GetPass ''Enter remote user password: '')
             (getpass w ''Enter remote user password: '') s)
          (\<lambda>p s. (s, Return (Some p)))
      else (s, Return None))"

definition resolve_become_pass ::
  "world \<Rightarrow> namespace \<Rightarrow> script \<Rightarrow> script \<times> string option outcome" where
  "resolve_become_pass w a s =
     (if ask_become_pass a then
        and_then
          (call (GetPass ''Enter become password: '') (getpass w ''Enter become password: '') s)
          (\<lambda>p s. (s, Return (Some p)))
      else (s, Return None))"

text \<open>Lines 103 to 106.\<close>

definition resolve_mode :: "namespace \<Rightarrow> script \<Rightarrow> script \<times> unit outcome" where
  "resolve_mode a s =
     (if become a then (s\<lparr>mode := ''become '' @ percent_s (become_user a) @ '' ''\<rparr>, Return ())
      else if su a then
        (case su_user a of
           None \<Rightarrow> (s, Raise (AttributeError ''su_user''))
         | Some u \<Rightarrow> (s\<lparr>mode := ''su '' @ percent_s u @ '' ''\<rparr>, Return ()))
      else (s, Return ()))"

text \<open>Lines 108 to 111.\<close>

definition resolve_vault :: "world \<Rightarrow> namespace \<Rightarrow> script \<Rightarrow> script \<times> vault_secret outcome" where
  "resolve_vault w a s =
     (case vault_password_file a of
        None \<Rightarrow> (s, Raise (AttributeError ''vault_password_file''))
      | Some f \<Rightarrow>
          (case truthy f of
             Some file \<Rightarrow>
               and_then (call (ReadVaultFile file) (read_vault_file w file) s)
                 (\<lambda>b s. (s, Return (VaultPayload b)))
           | None \<Rightarrow> (s, Return VaultFalse)))"

definition parse_args :: "world \<Rightarrow> namespace \<Rightarrow> script \<Rightarrow> script \<times> validated outcome" where
  "parse_args w a s =
     and_then (check_version w a s) (\<lambda>_ s.
     and_then (check_inventory a s) (\<lambda>path s.
     and_then (check_pattern w path a s) (\<lambda>_ s.
     and_then (resolve_remote_pass w a s) (\<lambda>rp s.
     and_then (resolve_become_pass w a s) (\<lambda>bp s.
     and_then (resolve_mode a s) (\<lambda>_ s.
     and_then (resolve_vault w a s) (\<lambda>vp s.
       (s, Return \<lparr>parsed = a, remote_pass = rp, become_pass = bp, vault_pass = vp\<rparr>))))))))"

section \<open>The runner adapters\<close>

text \<open>
  \<^verbatim>\<open>runner.run()\<close>: a SIGINT delivered during the call runs the handler \<open>SIGINT\<close> on the
  script as it is at that moment.
\<close>

definition runner_run :: "engine_event \<Rightarrow> script \<Rightarrow> script \<times> string outcome" where
  "runner_run ev s =
     (case ev of
        Returns r \<Rightarrow> (s, Return r)
      | Raises e \<Rightarrow> (s, Raise e)
      | Sigint \<Rightarrow> SIGINT s)"

text \<open>\<^verbatim>\<open>try: ... except AnsibleError, emsg: raise RunnerError(emsg)\<close>\<close>

definition except_AnsibleError :: "script \<times> 'a outcome \<Rightarrow> script \<times> 'a outcome" where
  "except_AnsibleError m =
     (case m of
        (s, Raise (AnsibleError emsg)) \<Rightarrow> (s, Raise (RunnerError emsg))
      | _ \<Rightarrow> m)"

text \<open>Lines 153 to 170: the keyword arguments, evaluated in the order written.\<close>

definition adhoc_kwargs :: "world \<Rightarrow> validated \<Rightarrow> exn + adhoc_config" where
  "adhoc_kwargs w v =
     (let a = parsed v in
      case realpath w (inventory a) of
        Inl e \<Rightarrow> Inl e
      | Inr host_list \<Rightarrow>
          (case module a of
             None \<Rightarrow> Inl (AttributeError ''module'')
           | Some module_name \<Rightarrow>
               (case pattern a of
                  None \<Rightarrow> Inl (AttributeError ''pattern'')
                | Some p \<Rightarrow>
                    Inr \<lparr>kw_host_list = host_list,
                         kw_module_path = module_path a,
                         kw_module_name = module_name,
                         kw_module_args = args a,
                         kw_forks = percent_d (forks a),
                         kw_timeout = timeout a,
                         kw_pattern = p,
                         kw_remote_user = user a,
                         kw_remote_pass = remote_pass v,
                         kw_remote_port = port a,
                         kw_private_key_file = private_key a,
                         kw_su = su a,
                         kw_become = become a,
                         kw_become_user = become_user a,
                         kw_become_pass = become_pass v,
                         kw_show_colors = colors a\<rparr>)))"

text \<open>
  \<^verbatim>\<open>AnsibleScript.run\<close>. The runner object is bound to the local variable \<^verbatim>\<open>runner\<close>;
  \<^verbatim>\<open>self.runner\<close> is not assigned. The constructor call is outside the \<^verbatim>\<open>try\<close>.
\<close>

definition AnsibleScript_run :: "world \<Rightarrow> validated \<Rightarrow> script \<Rightarrow> script \<times> string outcome" where
  "AnsibleScript_run w v s =
     (case adhoc_kwargs w v of
        Inl e \<Rightarrow> (s, Raise e)
      | Inr kw \<Rightarrow>
          and_then (call RunnerNew (AnsibleRunner w kw) s)
            (\<lambda>_ s. except_AnsibleError
               (runner_run (AnsibleRunner_run w kw) (s\<lparr>effects := effects s @ [RunnerRun]\<rparr>))))"

text \<open>Lines 220 to 246.\<close>

definition playbook_kwargs :: "world \<Rightarrow> string \<Rightarrow> validated \<Rightarrow> exn + playbook_config" where
  "playbook_kwargs w pb v =
     (let a = parsed v in
      case realpath w (inventory a) of
        Inl e \<Rightarrow> Inl e
      | Inr host_list \<Rightarrow>
          (case show_facts a of
             None \<Rightarrow> Inl (AttributeError ''show_facts'')
           | Some facts \<Rightarrow>
               Inr \<lparr>pb_playbook = pb,
                    pb_host_list = host_list,
                    pb_module_path = module_path a,
                    pb_forks = percent_d (forks a),
                    pb_timeout = timeout a,
                    pb_remote_user = user a,
                    pb_remote_pass = remote_pass v,
                    pb_become_pass = become_pass v,
                    pb_remote_port = port a,
                    pb_transport = ''smart'',
                    pb_private_key_file = private_key a,
                    pb_become = become a,
                    pb_become_user = become_user a,
                    pb_extra_vars = None,
                    pb_only_tags = None,
                    pb_skip_tags = None,
                    pb_subset = None,
                    pb_inventory = None,
                    pb_check = False,
                    pb_diff = False,
                    pb_any_errors_fatal = False,
                    pb_vault_password = vault_pass v,
                    pb_force_handlers = False,
                    pb_show_colors = colors a,
                    pb_show_facts = facts\<rparr>))"

text \<open>\<^verbatim>\<open>PlaybookScript.run\<close>: the playbook check of lines 217 and 218 comes first.\<close>

definition PlaybookScript_run :: "world \<Rightarrow> validated \<Rightarrow> script \<Rightarrow> script \<times> string outcome" where
  "PlaybookScript_run w v s =
     (case playbook (parsed v) of
        None \<Rightarrow> (s, Raise (AttributeError ''playbook''))
      | Some given \<Rightarrow>
          (case truthy given of
             None \<Rightarrow> script_exit 1 (Some ''No playbook provided'') s
           | Some pb \<Rightarrow>
               (case playbook_kwargs w pb v of
                  Inl e \<Rightarrow> (s, Raise e)
                | Inr kw \<Rightarrow>
                    and_then (call RunnerNew (PlaybookRunner w kw) s)
                      (\<lambda>_ s. except_AnsibleError
                         (runner_run (PlaybookRunner_run w kw)
                            (s\<lparr>effects := effects s @ [RunnerRun]\<rparr>))))))"

section \<open>The controller\<close>

text \<open>
  Modelled from the spec: the controller (the executable that creates the script object
  and calls its methods is not part of \<^verbatim>\<open>cli.py\<close>). Section 4.5: parse, validate, run the
  adapter; on success exit 0, on a RunnerError print the message and exit 1. The
  namespace handed to \<^verbatim>\<open>run\<close> is the one \<^verbatim>\<open>parse_args\<close> returned: \<^verbatim>\<open>run\<close> reads
  \<^verbatim>\<open>args.remote_pass\<close>, \<^verbatim>\<open>args.become_pass\<close> and \<^verbatim>\<open>args.vault_pass\<close>, which only
  \<^verbatim>\<open>parse_args\<close> assigns.
\<close>

definition controller ::
  "(world \<Rightarrow> validated \<Rightarrow> script \<Rightarrow> script \<times> string outcome) \<Rightarrow>
   world \<Rightarrow> namespace \<Rightarrow> script \<Rightarrow> script \<times> unit outcome" where
  "controller run w a s =
     (case and_then (parse_args w a s) (run w) of
        (s', Return r) \<Rightarrow> script_exit 0 None s'
      | (s', Raise (RunnerError m)) \<Rightarrow> script_exit 1 (Some m) s'
      | (s', Raise e) \<Rightarrow> (s', Raise e)
      | (s', Exit c) \<Rightarrow> (s', Exit c))"

section \<open>Argument schemas and the two programs\<close>

text \<open>
  The constants \<^verbatim>\<open>cli.py\<close> imports from \<^verbatim>\<open>ansible.constants\<close> (lines 17 to 20); their
  values come from the installed engine and its configuration.
\<close>

record constants =
  DEFAULT_MODULE_NAME :: pyval
  DEFAULT_MODULE_PATH :: pyval
  DEFAULT_MODULE_ARGS :: pyval
  DEFAULT_TIMEOUT :: pyval
  DEFAULT_HOST_LIST :: pyval
  DEFAULT_PRIVATE_KEY_FILE :: pyval
  DEFAULT_FORKS :: pyval
  DEFAULT_REMOTE_PORT :: pyval
  DEFAULT_PATTERN :: pyval
  DEFAULT_BECOME_USER :: pyval
  active_user :: pyval

text \<open>
  The names bound at module level of \<^verbatim>\<open>cli.py\<close>: the imports of lines 8 to 27, \<^verbatim>\<open>logger\<close>,
  and the function and the three classes the module defines. Modules, classes and
  functions are opaque objects here; only the constants are used as values.
\<close>

datatype binding = Value pyval | Object

definition module_globals :: "constants \<Rightarrow> string \<rightharpoonup> binding" where
  "module_globals c =
     [''os'' \<mapsto> Object, ''threading'' \<mapsto> Object, ''getpass'' \<mapsto> Object,
      ''Script'' \<mapsto> Object, ''Logger'' \<mapsto> Object,
      ''ansible_version'' \<mapsto> Object, ''utils'' \<mapsto> Object,
      ''DEFAULT_MODULE_NAME'' \<mapsto> Value (DEFAULT_MODULE_NAME c),
      ''DEFAULT_MODULE_PATH'' \<mapsto> Value (DEFAULT_MODULE_PATH c),
      ''DEFAULT_MODULE_ARGS'' \<mapsto> Value (DEFAULT_MODULE_ARGS c),
      ''DEFAULT_TIMEOUT'' \<mapsto> Value (DEFAULT_TIMEOUT c),
      ''DEFAULT_HOST_LIST'' \<mapsto> Value (DEFAULT_HOST_LIST c),
      ''DEFAULT_PRIVATE_KEY_FILE'' \<mapsto> Value (DEFAULT_PRIVATE_KEY_FILE c),
      ''DEFAULT_FORKS'' \<mapsto> Value (DEFAULT_FORKS c),
      ''DEFAULT_REMOTE_PORT'' \<mapsto> Value (DEFAULT_REMOTE_PORT c),
      ''DEFAULT_PATTERN'' \<mapsto> Value (DEFAULT_PATTERN c),
      ''DEFAULT_BECOME_USER'' \<mapsto> Value (DEFAULT_BECOME_USER c),
      ''active_user'' \<mapsto> Value (active_user c),
      ''AnsibleError'' \<mapsto> Object, ''Inventory'' \<mapsto> Object,
      ''RunnerError'' \<mapsto> Object, ''ansible_reporter_version'' \<mapsto> Object,
      ''PlaybookRunner'' \<mapsto> Object, ''AnsibleRunner'' \<mapsto> Object,
      ''logger'' \<mapsto> Object, ''create_directory'' \<mapsto> Object,
      ''GenericAnsibleScript'' \<mapsto> Object, ''AnsibleScript'' \<mapsto> Object,
      ''PlaybookScript'' \<mapsto> Object]"

text \<open>
  One \<^verbatim>\<open>self.add_argument(...)\<close> call: its option strings (or positional name) and the
  expression given as \<^verbatim>\<open>default=\<close>, which is absent, a literal, or a global name that
  Python looks up when the call is evaluated. The other keywords (\<^verbatim>\<open>action\<close>, \<^verbatim>\<open>type\<close>,
  \<^verbatim>\<open>nargs\<close>, \<^verbatim>\<open>help\<close>) are literals or the builtin \<^verbatim>\<open>int\<close> and cannot fail to evaluate.
\<close>

datatype default_expr = NoDefault | Literal pyval | Global string

type_synonym arg_decl = "string list \<times> default_expr"

type_synonym parser = "(string list \<times> binding option) list"

definition evaluate :: "(string \<rightharpoonup> binding) \<Rightarrow> default_expr \<Rightarrow> exn + binding option" where
  "evaluate g d =
     (case d of
        NoDefault \<Rightarrow> Inr None
      | Literal v \<Rightarrow> Inr (Some (Value v))
      | Global name \<Rightarrow>
          (case g name of None \<Rightarrow> Inl (NameError name) | Some b \<Rightarrow> Inr (Some b)))"

definition add_argument ::
  "(string \<rightharpoonup> binding) \<Rightarrow> arg_decl \<Rightarrow> parser \<Rightarrow> exn + parser" where
  "add_argument g d p =
     (case evaluate g (snd d) of
        Inl e \<Rightarrow> Inl e
      | Inr v \<Rightarrow> Inr (p @ [(fst d, v)]))"

text \<open>A sequence of \<^verbatim>\<open>add_argument\<close> statements stops at the first one that raises.\<close>

fun add_arguments :: "(string \<rightharpoonup> binding) \<Rightarrow> arg_decl list \<Rightarrow> parser \<Rightarrow> exn + parser" where
  "add_arguments g [] p = Inr p"
| "add_arguments g (d # ds) p =
     (case add_argument g d p of Inl e \<Rightarrow> Inl e | Inr p' \<Rightarrow> add_arguments g ds p')"

text \<open>Line 63.\<close>

definition GenericAnsibleScript_arguments :: "arg_decl list" where
  "GenericAnsibleScript_arguments = [([''--version''], NoDefault)]"

text \<open>Lines 130 to 142.\<close>

definition AnsibleScript_common_arguments :: "arg_decl list" where
  "AnsibleScript_common_arguments =
     [([''-i'', ''--inventory''], Global ''DEFAULT_HOST_LIST''),
      ([''-M'', ''--module-path''], Global ''DEFAULT_MODULE_PATH''),
      ([''-T'', ''--timeout''], Global ''DEFAULT_TIMEOUT''),
      ([''-u'', ''--user''], Global ''active_user''),
      ([''-U'', ''--become-user''], Global ''DEFAULT_become_USER''),
      ([''--private-key''], Global ''DEFAULT_PRIVATE_KEY_FILE''),
      ([''-f'', ''--forks''], Global ''DEFAULT_FORKS''),
      ([''--port''], Global ''DEFAULT_REMOTE_PORT''),
      ([''-S'', ''--su''], NoDefault),
      ([''-s'', ''--become''], NoDefault),
      ([''-k'', ''--ask-pass''], NoDefault),
      ([''-K'', ''--ask-become-pass''], NoDefault),
      ([''-c'', ''--colors''], NoDefault)]"

text \<open>Lines 145 to 147.\<close>

definition AnsibleScript_default_arguments :: "arg_decl list" where
  "AnsibleScript_default_arguments =
     [([''-m'', ''--module''], Global ''DEFAULT_MODULE_NAME''),
      ([''-a'', ''--args''], Global ''DEFAULT_MODULE_ARGS''),
      ([''pattern''], Global ''DEFAULT_PATTERN'')]"

text \<open>Lines 192 to 207, and line 189.\<close>

definition PlaybookScript_common_arguments :: "arg_decl list" where
  "PlaybookScript_common_arguments =
     [([''-i'', ''--inventory''], Global ''DEFAULT_HOST_LIST''),
      ([''-M'', ''--module-path''], Global ''DEFAULT_MODULE_PATH''),
      ([''-T'', ''--timeout''], Global ''DEFAULT_TIMEOUT''),
      ([''-u'', ''--user''], Global ''active_user''),
      ([''-U'', ''--become-user''], Global ''DEFAULT_BECOME_USER''),
      ([''--private-key''], Global ''DEFAULT_PRIVATE_KEY_FILE''),
      ([''-f'', ''--forks''], Global ''DEFAULT_FORKS''),
      ([''--port''], Global ''DEFAULT_REMOTE_PORT''),
      ([''-S'', ''--su''], NoDefault),
      ([''-s'', ''--become''], NoDefault),
      ([''-k'', ''--ask-pass''], NoDefault),
      ([''-K'', ''--ask-become-pass''], NoDefault),
      ([''-a'', ''--args''], Global ''DEFAULT_MODULE_ARGS''),
      ([''-c'', ''--colors''], NoDefault),
      ([''--show-facts''], NoDefault),
      ([''--vault-password-file''], Literal PNone)]"

definition PlaybookScript_playbook_argument :: "arg_decl list" where
  "PlaybookScript_playbook_argument = [([''playbook''], NoDefault)]"

text \<open>
  The three constructors. \<^verbatim>\<open>GenericAnsibleScript.__init__\<close> sets \<^verbatim>\<open>runner\<close> and \<^verbatim>\<open>mode\<close>
  and declares \<^verbatim>\<open>--version\<close>; each subclass then declares its own arguments.
\<close>

definition GenericAnsibleScript_init :: "(string \<rightharpoonup> binding) \<Rightarrow> exn + script \<times> parser" where
  "GenericAnsibleScript_init g =
     (case add_arguments g GenericAnsibleScript_arguments [] of
        Inl e \<Rightarrow> Inl e
      | Inr p \<Rightarrow> Inr (new_script, p))"

definition AnsibleScript_init :: "(string \<rightharpoonup> binding) \<Rightarrow> exn + script \<times> parser" where
  "AnsibleScript_init g =
     (case GenericAnsibleScript_init g of
        Inl e \<Rightarrow> Inl e
      | Inr (s, p) \<Rightarrow>
          (case add_arguments g AnsibleScript_common_arguments p of
             Inl e \<Rightarrow> Inl e
           | Inr p' \<Rightarrow>
               (case add_arguments g AnsibleScript_default_arguments p' of
                  Inl e \<Rightarrow> Inl e
                | Inr p'' \<Rightarrow> Inr (s, p''))))"

definition PlaybookScript_init :: "(string \<rightharpoonup> binding) \<Rightarrow> exn + script \<times> parser" where
  "PlaybookScript_init g =
     (case GenericAnsibleScript_init g of
        Inl e \<Rightarrow> Inl e
      | Inr (s, p) \<Rightarrow>
          (case add_arguments g PlaybookScript_common_arguments p of
             Inl e \<Rightarrow> Inl e
           | Inr p' \<Rightarrow>
               (case add_arguments g PlaybookScript_playbook_argument p' of
                  Inl e \<Rightarrow> Inl e
                | Inr p'' \<Rightarrow> Inr (s, p''))))"

text \<open>
  One process run in each mode: build the script object, then let the controller parse,
  validate and run. The namespace \<open>a\<close> stands for what \<^verbatim>\<open>argparse\<close> makes of the command
  line; it is only used once the constructor has returned.
\<close>

definition adhoc_program :: "constants \<Rightarrow> world \<Rightarrow> namespace \<Rightarrow> script \<times> unit outcome" where
  "adhoc_program c w a =
     (case AnsibleScript_init (module_globals c) of
        Inl e \<Rightarrow> (new_script, Raise e)
      | Inr (s, p) \<Rightarrow> controller AnsibleScript_run w a s)"

definition playbook_program :: "constants \<Rightarrow> world \<Rightarrow> namespace \<Rightarrow> script \<times> unit outcome" where
  "playbook_program c w a =
     (case PlaybookScript_init (module_globals c) of
        Inl e \<Rightarrow> (new_script, Raise e)
      | Inr (s, p) \<Rightarrow> controller PlaybookScript_run w a s)"

text \<open>
  Line 81: \<^verbatim>\<open>Script.parse_args\<close> hands the command line to \<^verbatim>\<open>argparse\<close>, which either
  returns a namespace or rejects the command line (an unknown option such as
  \<^verbatim>\<open>--version --bogus\<close>, a value that is not an integer): it then prints the usage and
  the error and ends the process with status 2.
\<close>

datatype command_line = Accepted namespace | Rejected string

definition Script_parse_args :: "command_line \<Rightarrow> script \<Rightarrow> script \<times> namespace outcome" where
  "Script_parse_args cl s =
     (case cl of
        Accepted a \<Rightarrow> (s, Return a)
      | Rejected msg \<Rightarrow> (message msg s, Exit 2))"

text \<open>One process run in playbook mode, from the command line on.\<close>

definition playbook_process :: "constants \<Rightarrow> world \<Rightarrow> command_line \<Rightarrow> script \<times> unit outcome" where
  "playbook_process c w cl =
     (case PlaybookScript_init (module_globals c) of
        Inl e \<Rightarrow> (new_script, Raise e)
      | Inr (s, p) \<Rightarrow>
          and_then (Script_parse_args cl s) (\<lambda>a. controller PlaybookScript_run w a))"

text \<open>
  The attribute name \<^verbatim>\<open>argparse\<close> derives for an argument: a positional keeps its name;
  an option takes its first long option string, or else its first option string, without
  the leading dashes and with every other dash replaced by an underscore.
\<close>

definition is_long :: "string \<Rightarrow> bool" where
  "is_long f = (take 2 f = ''--'')"

definition dest :: "string list \<Rightarrow> string" where
  "dest fl =
     (case fl of
        [] \<Rightarrow> []
      | f # _ \<Rightarrow>
          (if take 1 f = ''-'' then
             map (\<lambda>c. if c = CHR ''-'' then CHR ''_'' else c)
               (dropWhile (\<lambda>c. c = CHR ''-'')
                  (case filter is_long fl of [] \<Rightarrow> f | l # _ \<Rightarrow> l))
           else f))"

definition declared :: "parser \<Rightarrow> string list" where
  "declared p = map (\<lambda>d. dest (fst d)) p"

text \<open>
  A namespace has exactly the attributes its parser declares; \<open>conforms\<close> says so for the
  attributes that are not common to both schemas.
\<close>

definition conforms :: "parser \<Rightarrow> namespace \<Rightarrow> bool" where
  "conforms p a =
     ((pattern a \<noteq> None) = (''pattern'' \<in> set (declared p)) \<and>
      (module a \<noteq> None) = (''module'' \<in> set (declared p)) \<and>
      (playbook a \<noteq> None) = (''playbook'' \<in> set (declared p)) \<and>
      (show_facts a \<noteq> None) = (''show_facts'' \<in> set (declared p)) \<and>
      (vault_password_file a \<noteq> None) = (''vault_password_file'' \<in> set (declared p)) \<and>
      (su_user a \<noteq> None) = (''su_user'' \<in> set (declared p)))"

section \<open>Concrete inputs\<close>

text \<open>
  An inventory with the hosts \<open>a\<close> and \<open>b\<close>, prompts that are answered, a vault file that
  can be read, and runners that are built and return.
\<close>

definition example_world :: world where
  "example_world =
     \<lparr>list_hosts = (\<lambda>path p. case p of
          PatternDefault d \<Rightarrow> Inr [''a'', ''b'']
        | PatternList ps \<Rightarrow> Inr (filter (\<lambda>h. h \<in> set ps) [''a'', ''b''])),
      getpass = (\<lambda>prompt. Inr ''secret''),
      read_vault_file = (\<lambda>path. Inr ''vault secret''),
      realpath = (\<lambda>path. case path of
          None \<Rightarrow> Inl (AttributeError ''startswith'')
        | Some f \<Rightarrow> Inr f),
      AnsibleRunner = (\<lambda>kw. Inr RunnerObject),
      AnsibleRunner_run = (\<lambda>kw. Returns ''ok''),
      PlaybookRunner = (\<lambda>kw. Inr RunnerObject),
      PlaybookRunner_run = (\<lambda>kw. Returns ''ok''),
      ansible_reporter_version = ''1.0.2'',
      ansible_version = ''1.9.4''\<rparr>"

text \<open>The same world with an engine whose \<^verbatim>\<open>run()\<close> is interrupted by SIGINT.\<close>

definition interrupted_world :: world where
  "interrupted_world =
     example_world\<lparr>AnsibleRunner_run := (\<lambda>kw. Sigint), PlaybookRunner_run := (\<lambda>kw. Sigint)\<rparr>"

text \<open>The same world with an engine whose \<^verbatim>\<open>run()\<close> raises the given exception.\<close>

definition failing_world :: "exn \<Rightarrow> world" where
  "failing_world e =
     example_world\<lparr>AnsibleRunner_run := (\<lambda>kw. Raises e), PlaybookRunner_run := (\<lambda>kw. Raises e)\<rparr>"

text \<open>
  Namespaces as the two schemas produce them with no option given: the playbook schema
  declares \<^verbatim>\<open>playbook\<close>, \<^verbatim>\<open>show_facts\<close> and \<^verbatim>\<open>vault_password_file\<close>; the ad-hoc schema
  declares \<^verbatim>\<open>module\<close> and \<^verbatim>\<open>pattern\<close>; neither declares \<^verbatim>\<open>su_user\<close>.
\<close>

definition playbook_namespace :: namespace where
  "playbook_namespace =
     \<lparr>version = False, inventory = Some ''/etc/ansible/hosts'', module_path = None,
      timeout = 10, user = Some ''root'', become_user = Some ''root'', private_key = None,
      forks = 5, port = Some 22, su = False, become = False, ask_pass = False,
      ask_become_pass = False, colors = False, args = Some [],
      pattern = None, module = None, playbook = Some (Some ''site.yml''),
      show_facts = Some False, vault_password_file = Some None, su_user = None\<rparr>"

definition adhoc_namespace :: namespace where
  "adhoc_namespace =
     \<lparr>version = False, inventory = Some ''/etc/ansible/hosts'', module_path = None,
      timeout = 10, user = Some ''root'', become_user = Some ''root'', private_key = None,
      forks = 5, port = Some 22, su = False, become = False, ask_pass = False,
      ask_become_pass = False, colors = False, args = Some [],
      pattern = Some (PatternList [''a'']), module = Some ''command'', playbook = None,
      show_facts = None, vault_password_file = None, su_user = None\<rparr>"

definition example_constants :: constants where
  "example_constants =
     \<lparr>DEFAULT_MODULE_NAME = PStr ''command'', DEFAULT_MODULE_PATH = PNone,
      DEFAULT_MODULE_ARGS = PStr [], DEFAULT_TIMEOUT = PInt 10,
      DEFAULT_HOST_LIST = PStr ''/etc/ansible/hosts'', DEFAULT_PRIVATE_KEY_FILE = PNone,
      DEFAULT_FORKS = PInt 5, DEFAULT_REMOTE_PORT = PNone, DEFAULT_PATTERN = PStr ''*'',
      DEFAULT_BECOME_USER = PStr ''root'', active_user = PStr ''root''\<rparr>"

text \<open>What \<^verbatim>\<open>parse_args\<close> returns for a namespace with no password asked and no vault.\<close>

definition validated_of :: "namespace \<Rightarrow> validated" where
  "validated_of a = \<lparr>parsed = a, remote_pass = None, become_pass = None, vault_pass = VaultFalse\<rparr>"

text \<open>
  The keyword arguments the two adapters build from these namespaces in these worlds.
\<close>

definition example_adhoc_config :: adhoc_config where
  "example_adhoc_config =
     \<lparr>kw_host_list = ''/etc/ansible/hosts'', kw_module_path = None,
      kw_module_name = ''command'', kw_module_args = Some [], kw_forks = ''5'',
      kw_timeout = 10, kw_pattern = PatternList [''a''], kw_remote_user = Some ''root'',
      kw_remote_pass = None, kw_remote_port = Some 22, kw_private_key_file = None,
      kw_su = False, kw_become = False, kw_become_user = Some ''root'',
      kw_become_pass = None, kw_show_colors = False\<rparr>"

definition example_playbook_config :: playbook_config where
  "example_playbook_config =
     \<lparr>pb_playbook = ''site.yml'', pb_host_list = ''/etc/ansible/hosts'',
      pb_module_path = None, pb_forks = ''5'', pb_timeout = 10,
      pb_remote_user = Some ''root'', pb_remote_pass = None, pb_become_pass = None,
      pb_remote_port = Some 22, pb_transport = ''smart'', pb_private_key_file = None,
      pb_become = False, pb_become_user = Some ''root'', pb_extra_vars = None,
      pb_only_tags = None, pb_skip_tags = None, pb_subset = None, pb_inventory = None,
      pb_check = False, pb_diff = False, pb_any_errors_fatal = False,
      pb_vault_password = VaultFalse, pb_force_handlers = False, pb_show_colors = False,
      pb_show_facts = False\<rparr>"

section \<open>Facts about the concrete inputs\<close>

lemmas step_defs =
  check_version_def check_inventory_def check_pattern_def resolve_remote_pass_def
  resolve_become_pass_def resolve_mode_def resolve_vault_def and_then_def call_def
  script_exit_def message_def show_version_def

lemma example_world_simps [simp]:
  "ansible_reporter_version example_world = ''1.0.2''"
  "ansible_version example_world = ''1.9.4''"
  "list_hosts example_world path (PatternList [''c'']) = Inr []"
  "list_hosts example_world path (PatternList [''a'']) = Inr [''a'']"
  "getpass example_world prompt = Inr ''secret''"
  "read_vault_file example_world file = Inr ''vault secret''"
  "realpath example_world (Some f) = Inr f"
  "AnsibleRunner example_world kw = Inr RunnerObject"
  "AnsibleRunner_run example_world kw = Returns ''ok''"
  "PlaybookRunner example_world pkw = Inr RunnerObject"
  "PlaybookRunner_run example_world pkw = Returns ''ok''"
  by (simp_all add: example_world_def)

lemma interrupted_world_simps [simp]:
  "realpath interrupted_world (Some f) = Inr f"
  "AnsibleRunner interrupted_world kw = Inr RunnerObject"
  "AnsibleRunner_run interrupted_world kw = Sigint"
  "PlaybookRunner interrupted_world pkw = Inr RunnerObject"
  "PlaybookRunner_run interrupted_world pkw = Sigint"
  by (simp_all add: interrupted_world_def example_world_def)

lemma failing_world_simps [simp]:
  "realpath (failing_world e) (Some f) = Inr f"
  "AnsibleRunner (failing_world e) kw = Inr RunnerObject"
  "AnsibleRunner_run (failing_world e) kw = Raises e"
  "PlaybookRunner (failing_world e) pkw = Inr RunnerObject"
  "PlaybookRunner_run (failing_world e) pkw = Raises e"
  by (simp_all add: failing_world_def example_world_def)

lemma percent_d_5: "percent_d 5 = ''5''"
  by (simp add: percent_d_def)

lemma adhoc_kwargs_example:
  "realpath w (Some ''/etc/ansible/hosts'') = Inr ''/etc/ansible/hosts'' \<Longrightarrow>
   adhoc_kwargs w (validated_of adhoc_namespace) = Inr example_adhoc_config"
  by (simp add: adhoc_kwargs_def validated_of_def adhoc_namespace_def example_adhoc_config_def
      percent_d_5)

lemma playbook_kwargs_example:
  "realpath w (Some ''/etc/ansible/hosts'') = Inr ''/etc/ansible/hosts'' \<Longrightarrow>
   playbook_kwargs w ''site.yml'' (validated_of playbook_namespace) = Inr example_playbook_config"
  by (simp add: playbook_kwargs_def validated_of_def playbook_namespace_def
      example_playbook_config_def percent_d_5)

lemma playbook_of_example:
  "playbook (parsed (validated_of playbook_namespace)) = Some (Some ''site.yml'')"
  by (simp add: validated_of_def playbook_namespace_def)

lemma parse_args_playbook_namespace:
  "parse_args example_world playbook_namespace new_script =
     (new_script, Return (validated_of playbook_namespace))"
  by (simp add: parse_args_def step_defs truthy_def playbook_namespace_def validated_of_def)

section \<open>Sequencing lemmas\<close>

lemma and_then_Return_iff:
  "and_then m f = (s', Return v) \<longleftrightarrow>
     (\<exists>s1 x. m = (s1, Return x) \<and> f x s1 = (s', Return v))"
  by (cases m; cases "snd m") (auto simp: and_then_def)

lemma check_version_Return:
  "check_version w a s = (s1, Return x) \<longleftrightarrow> \<not> version a \<and> s1 = s"
  by (auto simp: check_version_def script_exit_def)

lemma check_inventory_Return:
  "check_inventory a s = (s1, Return path) \<longleftrightarrow> inventory a = Some path \<and> s1 = s"
  by (cases "inventory a") (auto simp: check_inventory_def script_exit_def)

text \<open>When \<^verbatim>\<open>parse_args\<close> returns, every step before has returned.\<close>

lemma parse_args_ReturnD:
  assumes "parse_args w a s = (s', Return v)"
  shows "\<exists>path s3 s4 s5 s6.
      \<not> version a \<and> inventory a = Some path \<and>
      check_pattern w path a s = (s3, Return ()) \<and>
      resolve_remote_pass w a s3 = (s4, Return (remote_pass v)) \<and>
      resolve_become_pass w a s4 = (s5, Return (become_pass v)) \<and>
      resolve_mode a s5 = (s6, Return ()) \<and>
      resolve_vault w a s6 = (s', Return (vault_pass v)) \<and>
      parsed v = a"
  using assms
  unfolding parse_args_def and_then_Return_iff check_version_Return check_inventory_Return
  by auto

lemma parse_args_parsed: "parse_args w a s = (s', Return v) \<Longrightarrow> parsed v = a"
  using parse_args_ReturnD by blast

lemma resolve_remote_pass_Return:
  "resolve_remote_pass w a s = (s1, Return rp) \<Longrightarrow> \<not> ask_pass a \<Longrightarrow> rp = None"
  by (simp add: resolve_remote_pass_def)

lemma resolve_become_pass_Return:
  "resolve_become_pass w a s = (s1, Return bp) \<Longrightarrow> \<not> ask_become_pass a \<Longrightarrow> bp = None"
  by (simp add: resolve_become_pass_def)

lemma resolve_vault_Return:
  "resolve_vault w a s = (s1, Return vp) \<Longrightarrow>
   \<forall>f. vault_password_file a \<noteq> Some (Some f) \<Longrightarrow> vp = VaultFalse"
  by (cases "vault_password_file a") (auto simp: resolve_vault_def truthy_def split: option.splits)

lemma resolve_vault_mode: "resolve_vault w a s = (s1, r) \<Longrightarrow> mode s1 = mode s"
  by (cases "vault_password_file a"; cases "read_vault_file w (the (the (vault_password_file a)))")
     (auto simp: resolve_vault_def truthy_def and_then_def call_def split: option.splits if_splits)

text \<open>
  A namespace of the ad-hoc schema has no \<^verbatim>\<open>vault_password_file\<close> attribute, so line 108
  raises \<^verbatim>\<open>AttributeError\<close> and \<^verbatim>\<open>parse_args\<close> never returns for it. The same happens
  at line 106 for \<^verbatim>\<open>--su\<close> without \<^verbatim>\<open>--become\<close>, since no schema declares \<^verbatim>\<open>su_user\<close>.
\<close>

lemma parse_args_without_vault_attribute:
  "vault_password_file a = None \<Longrightarrow> parse_args w a s \<noteq> (s', Return v)"
proof
  assume none: "vault_password_file a = None" and ret: "parse_args w a s = (s', Return v)"
  from parse_args_ReturnD [OF ret] obtain s6 where
    "resolve_vault w a s6 = (s', Return (vault_pass v))" by blast
  with none show False by (simp add: resolve_vault_def)
qed

lemma parse_args_without_su_user_attribute:
  "su a \<Longrightarrow> \<not> become a \<Longrightarrow> su_user a = None \<Longrightarrow> parse_args w a s \<noteq> (s', Return v)"
proof
  assume su: "su a" "\<not> become a" "su_user a = None" and ret: "parse_args w a s = (s', Return v)"
  from parse_args_ReturnD [OF ret] obtain s5 s6 where
    "resolve_mode a s5 = (s6, Return ())" by blast
  with su show False by (simp add: resolve_mode_def)
qed

section \<open>The validation pipeline\<close>


text \<open>
  Without the version flag and with no inventory path it exits with code 1 after printing
  \<^verbatim>\<open>Could not detect default inventory path\<close>: no host listing, no password prompt, no
  vault read, no runner.
\<close>

lemma parse_args_missing_inventory:
  "\<not> version a \<Longrightarrow> inventory a = None \<Longrightarrow>
     parse_args w a s =
       (s\<lparr>effects := effects s @ [Message ''Could not detect default inventory path'']\<rparr>,
        Exit 1)
     \<and> and_then (parse_args w a s) k =
       (s\<lparr>effects := effects s @ [Message ''Could not detect default inventory path'']\<rparr>,
        Exit 1)"
  by (simp add: parse_args_def step_defs)

text \<open>
  With a \<^verbatim>\<open>pattern\<close> attribute and an inventory that lists no host for it, it exits with
  code 1 after printing \<^verbatim>\<open>No hosts matched\<close>; without a \<^verbatim>\<open>pattern\<close> attribute the check
  does nothing.
\<close>

lemma parse_args_no_hosts:
  "(\<not> version a \<and> inventory a = Some path \<and> pattern a = Some p \<and>
    list_hosts w path p = Inr [] \<longrightarrow>
      parse_args w a s =
        (s\<lparr>effects := effects s @ [ListHosts path p, Message ''No hosts matched'']\<rparr>, Exit 1)
      \<and> and_then (parse_args w a s) k =
        (s\<lparr>effects := effects s @ [ListHosts path p, Message ''No hosts matched'']\<rparr>, Exit 1))
   \<and> (pattern a = None \<longrightarrow> check_pattern w path a s = (s, Return ()))"
  by (simp add: parse_args_def step_defs)

text \<open>
  C6. With both the become and the su toggle set, \<^verbatim>\<open>parse_args\<close> records the prefix
  \<^verbatim>\<open>become <become_user> \<close> in \<^verbatim>\<open>self.mode\<close>: the become branch is taken,
  \<^verbatim>\<open>args.su_user\<close> is not read, the result is the same as with the su toggle unset, and it
  is never a \<^verbatim>\<open>su <user> \<close> prefix. Whenever \<^verbatim>\<open>parse_args\<close> returns, that prefix is the
  mode of the script.
\<close>

theorem become_before_su:
  assumes "become a" "su a"
  shows "resolve_mode a s =
           (s\<lparr>mode := ''become '' @ percent_s (become_user a) @ '' ''\<rparr>, Return ())
   \<and> resolve_mode (a\<lparr>su := False\<rparr>) s = resolve_mode a s
   \<and> mode (fst (resolve_mode a s)) \<noteq> ''su '' @ percent_s u @ '' ''
   \<and> (parse_args w a s = (s', Return v) \<longrightarrow>
         mode s' = ''become '' @ percent_s (become_user a) @ '' '')"
proof -
  have 1: "resolve_mode a t =
      (t\<lparr>mode := ''become '' @ percent_s (become_user a) @ '' ''\<rparr>, Return ())" for t
    using assms by (simp add: resolve_mode_def)
  have 2: "resolve_mode (a\<lparr>su := False\<rparr>) s = resolve_mode a s"
    using assms by (simp add: resolve_mode_def)
  have 3: "mode (fst (resolve_mode a s)) \<noteq> ''su '' @ percent_s u @ '' ''"
    by (simp add: 1)
  have 4: "mode s' = ''become '' @ percent_s (become_user a) @ '' ''"
    if "parse_args w a s = (s', Return v)"
  proof -
    from parse_args_ReturnD [OF that] obtain s5 s6 where
      m: "resolve_mode a s5 = (s6, Return ())" and
      r: "resolve_vault w a s6 = (s', Return (vault_pass v))"
      by blast
    from m have "mode s6 = ''become '' @ percent_s (become_user a) @ '' ''"
      by (auto simp: 1)
    with resolve_vault_mode [OF r] show ?thesis by simp
  qed
  from 1 2 3 4 show ?thesis by blast
qed

theorem become_before_su_witness:
  "become (playbook_namespace\<lparr>su := True, become := True\<rparr>) \<and>
   su (playbook_namespace\<lparr>su := True, become := True\<rparr>) \<and>
   resolve_mode (playbook_namespace\<lparr>su := True, become := True\<rparr>) new_script =
     (new_script\<lparr>mode := ''become root ''\<rparr>, Return ()) \<and>
   parse_args example_world (playbook_namespace\<lparr>su := True, become := True\<rparr>) new_script =
     (new_script\<lparr>mode := ''become root ''\<rparr>,
      Return (validated_of (playbook_namespace\<lparr>su := True, become := True\<rparr>))) \<and>
   mode (new_script\<lparr>mode := ''become root ''\<rparr>) = ''become root ''"
proof -
  let ?a = "playbook_namespace\<lparr>su := True, become := True\<rparr>"
  have b: "become ?a" and s: "su ?a" by simp_all
  have u: "percent_s (become_user ?a) = ''root''"
    by (simp add: playbook_namespace_def percent_s_def)
  have p: "parse_args example_world ?a new_script =
      (new_script\<lparr>mode := ''become root ''\<rparr>, Return (validated_of ?a))"
    by (simp add: parse_args_def step_defs truthy_def playbook_namespace_def validated_of_def
        percent_s_def)
  from become_before_su [OF b s, of new_script "Some ''root''" example_world
      "new_script\<lparr>mode := ''become root ''\<rparr>" "validated_of ?a"] p
  have "resolve_mode ?a new_script = (new_script\<lparr>mode := ''become root ''\<rparr>, Return ())"
    and "mode (new_script\<lparr>mode := ''become root ''\<rparr>) = ''become root ''"
    by (simp_all add: u)
  with b s p show ?thesis by blast
qed

text \<open>
  With the ask-password flag unset the remote password is \<open>None\<close>, with the
  ask-become-password flag unset the become password is \<open>None\<close>, and with the vault file
  attribute \<^verbatim>\<open>None\<close> the vault secret is the value \<^verbatim>\<open>False\<close>: each step yields that
  value, and every namespace \<^verbatim>\<open>parse_args\<close> returns carries it.
\<close>

lemma parse_args_absent_secrets:
  "(\<not> ask_pass a \<longrightarrow> resolve_remote_pass w a s = (s, Return None)) \<and>
   (\<not> ask_become_pass a \<longrightarrow> resolve_become_pass w a s = (s, Return None)) \<and>
   (vault_password_file a = Some None \<longrightarrow> resolve_vault w a s = (s, Return VaultFalse)) \<and>
   (parse_args w a s = (s', Return v) \<longrightarrow>
      (\<not> ask_pass a \<longrightarrow> remote_pass v = None \<and> remote_pass v \<noteq> Some []) \<and>
      (\<not> ask_become_pass a \<longrightarrow> become_pass v = None \<and> become_pass v \<noteq> Some []) \<and>
      ((\<forall>f. vault_password_file a \<noteq> Some (Some f)) \<longrightarrow>
         vault_pass v = VaultFalse \<and> vault_pass v \<noteq> VaultPayload []))"
proof -
  have 1: "\<not> ask_pass a \<longrightarrow> resolve_remote_pass w a s = (s, Return None)"
    by (simp add: resolve_remote_pass_def)
  have 2: "\<not> ask_become_pass a \<longrightarrow> resolve_become_pass w a s = (s, Return None)"
    by (simp add: resolve_become_pass_def)
  have 3: "vault_password_file a = Some None \<longrightarrow> resolve_vault w a s = (s, Return VaultFalse)"
    by (simp add: resolve_vault_def truthy_def)
  have 4: "(\<not> ask_pass a \<longrightarrow> remote_pass v = None \<and> remote_pass v \<noteq> Some []) \<and>
      (\<not> ask_become_pass a \<longrightarrow> become_pass v = None \<and> become_pass v \<noteq> Some []) \<and>
      ((\<forall>f. vault_password_file a \<noteq> Some (Some f)) \<longrightarrow>
         vault_pass v = VaultFalse \<and> vault_pass v \<noteq> VaultPayload [])"
    if "parse_args w a s = (s', Return v)"
  proof -
    from parse_args_ReturnD [OF that] obtain s3 s4 s5 s6 where
      rp: "resolve_remote_pass w a s3 = (s4, Return (remote_pass v))" and
      bp: "resolve_become_pass w a s4 = (s5, Return (become_pass v))" and
      vp: "resolve_vault w a s6 = (s', Return (vault_pass v))"
      by blast
    show ?thesis
      using resolve_remote_pass_Return [OF rp] resolve_become_pass_Return [OF bp]
        resolve_vault_Return [OF vp] by auto
  qed
  from 1 2 3 4 show ?thesis by blast
qed

section \<open>The constructors\<close>

text \<open>The playbook schema only uses names the module binds, so its constructor returns.\<close>

lemma PlaybookScript_init_ok:
  "PlaybookScript_init (module_globals c) =
     Inr (new_script,
       [([''--version''], None),
        ([''-i'', ''--inventory''], Some (Value (DEFAULT_HOST_LIST c))),
        ([''-M'', ''--module-path''], Some (Value (DEFAULT_MODULE_PATH c))),
        ([''-T'', ''--timeout''], Some (Value (DEFAULT_TIMEOUT c))),
        ([''-u'', ''--user''], Some (Value (active_user c))),
        ([''-U'', ''--become-user''], Some (Value (DEFAULT_BECOME_USER c))),
        ([''--private-key''], Some (Value (DEFAULT_PRIVATE_KEY_FILE c))),
        ([''-f'', ''--forks''], Some (Value (DEFAULT_FORKS c))),
        ([''--port''], Some (Value (DEFAULT_REMOTE_PORT c))),
        ([''-S'', ''--su''], None),
        ([''-s'', ''--become''], None),
        ([''-k'', ''--ask-pass''], None),
        ([''-K'', ''--ask-become-pass''], None),
        ([''-a'', ''--args''], Some (Value (DEFAULT_MODULE_ARGS c))),
        ([''-c'', ''--colors''], None),
        ([''--show-facts''], None),
        ([''--vault-password-file''], Some (Value PNone)),
        ([''playbook''], None)])"
  by (simp add: PlaybookScript_init_def GenericAnsibleScript_init_def
      GenericAnsibleScript_arguments_def PlaybookScript_common_arguments_def add_argument_def
      PlaybookScript_playbook_argument_def evaluate_def module_globals_def)

text \<open>
  C4. Whatever values the imported constants have, the constructor of \<^verbatim>\<open>AnsibleScript\<close>
  raises \<^verbatim>\<open>NameError\<close> for \<^verbatim>\<open>DEFAULT_become_USER\<close>, a name the module does not bind (it
  binds \<^verbatim>\<open>DEFAULT_BECOME_USER\<close>). So for every world and every command line the ad-hoc
  program ends with that exception on the freshly built script: no message, no host
  listing, no prompt, no runner.
\<close>

theorem adhoc_constructor_raises_NameError:
  "AnsibleScript_init (module_globals c) = Inl (NameError ''DEFAULT_become_USER'')
   \<and> adhoc_program c w a = (new_script, Raise (NameError ''DEFAULT_become_USER''))
   \<and> effects (fst (adhoc_program c w a)) = []"
proof -
  have init: "AnsibleScript_init (module_globals c) = Inl (NameError ''DEFAULT_become_USER'')"
    by (simp add: AnsibleScript_init_def GenericAnsibleScript_init_def
        GenericAnsibleScript_arguments_def AnsibleScript_common_arguments_def add_argument_def
        evaluate_def module_globals_def)
  then have prog: "adhoc_program c w a = (new_script, Raise (NameError ''DEFAULT_become_USER''))"
    by (simp add: adhoc_program_def)
  from init prog show ?thesis by (simp add: new_script_def)
qed

section \<open>The adapters and the controller\<close>

lemmas run_defs =
  AnsibleScript_run_def PlaybookScript_run_def runner_run_def except_AnsibleError_def
  SIGINT_def and_then_def call_def script_exit_def message_def truthy_def

text \<open>
  C1, as the code has it. \<^verbatim>\<open>PlaybookScript.run\<close> exits with code 1 and the message
  \<^verbatim>\<open>No playbook provided\<close> when the playbook argument is \<^verbatim>\<open>None\<close> or empty, before any
  runner is built, whatever the rest of the namespace holds. The check is the first
  statement of \<^verbatim>\<open>run\<close>, so it comes after \<^verbatim>\<open>parse_args\<close>: when \<^verbatim>\<open>parse_args\<close> returns,
  the process ends with that message; when the inventory is unset (and no version is
  asked) the process ends with the inventory message instead.
\<close>

theorem playbook_check_follows_validation:
  assumes "playbook a = Some given" "truthy given = None"
  shows "(parsed v = a \<longrightarrow>
            PlaybookScript_run w v s =
              (s\<lparr>effects := effects s @ [Message ''No playbook provided'']\<rparr>, Exit 1))
       \<and> (parse_args w a s = (s', Return v) \<longrightarrow>
            controller PlaybookScript_run w a s =
              (s'\<lparr>effects := effects s' @ [Message ''No playbook provided'']\<rparr>, Exit 1))
       \<and> (\<not> version a \<and> inventory a = None \<longrightarrow>
            controller PlaybookScript_run w a s =
              (s\<lparr>effects := effects s @ [Message ''Could not detect default inventory path'']\<rparr>,
               Exit 1))"
proof -
  have run: "PlaybookScript_run w v s =
      (s\<lparr>effects := effects s @ [Message ''No playbook provided'']\<rparr>, Exit 1)"
    if "parsed v = a" for v s
    using that assms by (simp add: PlaybookScript_run_def script_exit_def message_def)
  have ctl: "controller PlaybookScript_run w a s =
      (s'\<lparr>effects := effects s' @ [Message ''No playbook provided'']\<rparr>, Exit 1)"
    if "parse_args w a s = (s', Return v)"
    using that run [OF parse_args_parsed [OF that], of s']
    by (simp add: controller_def and_then_def)
  have inv: "controller PlaybookScript_run w a s =
      (s\<lparr>effects := effects s @ [Message ''Could not detect default inventory path'']\<rparr>, Exit 1)"
    if "\<not> version a \<and> inventory a = None"
    using that by (simp add: parse_args_def controller_def step_defs)
  from run ctl inv show ?thesis by blast
qed

theorem playbook_check_follows_validation_witness:
  "playbook (playbook_namespace\<lparr>playbook := Some None\<rparr>) = Some None \<and>
   truthy None = None \<and>
   parsed (validated_of (playbook_namespace\<lparr>playbook := Some None\<rparr>)) =
     playbook_namespace\<lparr>playbook := Some None\<rparr> \<and>
   PlaybookScript_run example_world
      (validated_of (playbook_namespace\<lparr>playbook := Some None\<rparr>)) new_script =
     (new_script\<lparr>effects := [Message ''No playbook provided'']\<rparr>, Exit 1) \<and>
   parse_args example_world (playbook_namespace\<lparr>playbook := Some None\<rparr>) new_script =
     (new_script, Return (validated_of (playbook_namespace\<lparr>playbook := Some None\<rparr>))) \<and>
   controller PlaybookScript_run example_world (playbook_namespace\<lparr>playbook := Some None\<rparr>)
      new_script =
     (new_script\<lparr>effects := [Message ''No playbook provided'']\<rparr>, Exit 1) \<and>
   \<not> version (playbook_namespace\<lparr>playbook := Some None, inventory := None\<rparr>) \<and>
   inventory (playbook_namespace\<lparr>playbook := Some None, inventory := None\<rparr>) = None \<and>
   controller PlaybookScript_run example_world
      (playbook_namespace\<lparr>playbook := Some None, inventory := None\<rparr>) new_script =
     (new_script\<lparr>effects := [Message ''Could not detect default inventory path'']\<rparr>, Exit 1)"
proof -
  let ?a = "playbook_namespace\<lparr>playbook := Some None\<rparr>"
  let ?b = "playbook_namespace\<lparr>playbook := Some None, inventory := None\<rparr>"
  have pa: "playbook ?a = Some None" and pb: "playbook ?b = Some None" by simp_all
  have t: "truthy None = None" by (simp add: truthy_def)
  have p: "parse_args example_world ?a new_script = (new_script, Return (validated_of ?a))"
    by (simp add: parse_args_def step_defs truthy_def playbook_namespace_def validated_of_def)
  have vb: "\<not> version ?b" and ib: "inventory ?b = None"
    by (simp_all add: playbook_namespace_def)
  have e: "effects new_script = []" by (simp add: new_script_def)
  have q: "parsed (validated_of ?a) = ?a" by (simp add: validated_of_def)
  from playbook_check_follows_validation [OF pa t, of "validated_of ?a" example_world
      new_script new_script] q
  have 0: "PlaybookScript_run example_world (validated_of ?a) new_script =
      (new_script\<lparr>effects := [Message ''No playbook provided'']\<rparr>, Exit 1)"
    by (simp add: e)
  from playbook_check_follows_validation [OF pa t, of "validated_of ?a" example_world
      new_script new_script] p
  have 1: "controller PlaybookScript_run example_world ?a new_script =
      (new_script\<lparr>effects := [Message ''No playbook provided'']\<rparr>, Exit 1)"
    by (simp add: e)
  from playbook_check_follows_validation [OF pb t, of "validated_of ?b" example_world
      new_script new_script] vb ib
  have 2: "controller PlaybookScript_run example_world ?b new_script =
      (new_script\<lparr>effects := [Message ''Could not detect default inventory path'']\<rparr>, Exit 1)"
    by (simp add: e)
  from pa t q 0 p 1 vb ib 2 show ?thesis by blast
qed

text \<open>
  C1, as stated, fails: in playbook mode with no playbook argument and no inventory path,
  the process exits with the inventory message, not with \<^verbatim>\<open>No playbook provided\<close>.
\<close>

theorem playbook_check_first_counterexample:
  "playbook_program example_constants example_world
      (playbook_namespace\<lparr>inventory := None, playbook := Some None\<rparr>) =
     (new_script\<lparr>effects := [Message ''Could not detect default inventory path'']\<rparr>, Exit 1)
   \<and> playbook_program example_constants example_world
      (playbook_namespace\<lparr>inventory := None, playbook := Some None\<rparr>) \<noteq>
     (new_script\<lparr>effects := [Message ''No playbook provided'']\<rparr>, Exit 1)"
  by (simp add: playbook_program_def PlaybookScript_init_ok
      parse_args_def controller_def step_defs playbook_namespace_def new_script_def)

text \<open>
  Neither adapter writes \<^verbatim>\<open>self.runner\<close>: the field is the same before the call, while
  \<^verbatim>\<open>runner.run()\<close> executes (the state the interrupt handler reads) and after it, on
  every exit path.
\<close>

lemma except_AnsibleError_fst: "fst (except_AnsibleError m) = fst m"
  by (cases m; cases "snd m") (auto simp: except_AnsibleError_def split: exn.splits)

lemma runner_run_runner: "runner (fst (runner_run ev s)) = runner s"
  by (cases ev) (auto simp: runner_run_def SIGINT_def script_exit_def)

lemma engine_call_runner:
  "runner
     (fst (and_then (call RunnerNew r s)
        (\<lambda>_ s. except_AnsibleError
           (runner_run ev (s\<lparr>effects := effects s @ [RunnerRun]\<rparr>))))) = runner s"
  by (cases r) (simp_all add: and_then_def call_def except_AnsibleError_fst runner_run_runner)

lemma adapters_keep_runner:
  "runner (fst (AnsibleScript_run w v s)) = runner s"
  "runner (fst (PlaybookScript_run w v s)) = runner s"
proof -
  show "runner (fst (AnsibleScript_run w v s)) = runner s"
    by (cases "adhoc_kwargs w v") (simp_all add: AnsibleScript_run_def engine_call_runner)
  show "runner (fst (PlaybookScript_run w v s)) = runner s"
  proof (cases "playbook (parsed v)")
    case None
    then show ?thesis by (simp add: PlaybookScript_run_def)
  next
    case (Some given)
    show ?thesis
    proof (cases "truthy given")
      case None
      with Some show ?thesis
        by (simp add: PlaybookScript_run_def script_exit_def message_def)
    next
      case (Some pb)
      with \<open>playbook (parsed v) = Some given\<close> show ?thesis
        by (cases "playbook_kwargs w pb v")
          (simp_all add: PlaybookScript_run_def engine_call_runner)
    qed
  qed
qed

text \<open>
  C2, evaluated on the code. A script fresh from \<^verbatim>\<open>__init__\<close> runs either adapter and
  SIGINT arrives while \<^verbatim>\<open>runner.run()\<close> executes: the handler finds \<^verbatim>\<open>self.runner\<close> still
  \<^verbatim>\<open>None\<close> and exits with code 1 instead of raising \<^verbatim>\<open>KeyboardInterrupt\<close>. The runner
  was built and run, yet the field was never set.
\<close>

theorem runner_handle_never_registered:
  "AnsibleScript_run interrupted_world (validated_of adhoc_namespace) new_script =
     (new_script\<lparr>effects := [RunnerNew, RunnerRun]\<rparr>, Exit 1)
   \<and> PlaybookScript_run interrupted_world (validated_of playbook_namespace) new_script =
     (new_script\<lparr>effects := [RunnerNew, RunnerRun]\<rparr>, Exit 1)
   \<and> runner (new_script\<lparr>effects := [RunnerNew, RunnerRun]\<rparr>) = None"
  by (simp add: run_defs adhoc_kwargs_example playbook_kwargs_example playbook_of_example
      new_script_def)




section \<open>The programs as a whole\<close>

lemma AnsibleScript_init_fails:
  "AnsibleScript_init (module_globals c) = Inl (NameError ''DEFAULT_become_USER'')"
  by (simp add: AnsibleScript_init_def GenericAnsibleScript_init_def
      GenericAnsibleScript_arguments_def AnsibleScript_common_arguments_def add_argument_def
      evaluate_def module_globals_def)

lemma playbook_program_controller:
  "playbook_program c w a = controller PlaybookScript_run w a new_script"
  by (simp add: playbook_program_def PlaybookScript_init_ok)

lemma playbook_process_Accepted: "playbook_process c w (Accepted a) = playbook_program c w a"
  by (simp add: playbook_process_def playbook_program_def Script_parse_args_def and_then_def
      PlaybookScript_init_ok)


lemma controller_parse_args_Exit:
  "parse_args w a s = (s', Exit n) \<Longrightarrow> controller run w a s = (s', Exit n)"
  by (simp add: controller_def and_then_def)

text \<open>
  What the playbook parser declares, and so which attributes a namespace it produces has:
  no \<^verbatim>\<open>pattern\<close>, no \<^verbatim>\<open>module\<close>, no \<^verbatim>\<open>su_user\<close>. The host check therefore does
  nothing in playbook mode.
\<close>

lemma playbook_declared:
  "PlaybookScript_init (module_globals c) = Inr (s, p) \<Longrightarrow>
   declared p =
     [''version'', ''inventory'', ''module_path'', ''timeout'', ''user'', ''become_user'',
      ''private_key'', ''forks'', ''port'', ''su'', ''become'', ''ask_pass'',
      ''ask_become_pass'', ''args'', ''colors'', ''show_facts'', ''vault_password_file'',
      ''playbook'']"
  by (auto simp: PlaybookScript_init_ok declared_def dest_def is_long_def)

lemma playbook_namespace_shape:
  assumes "PlaybookScript_init (module_globals c) = Inr (s, p)" "conforms p a"
  shows "pattern a = None" "module a = None" "su_user a = None"
    "playbook a \<noteq> None" "show_facts a \<noteq> None" "vault_password_file a \<noteq> None"
  using assms(2) by (simp_all add: conforms_def playbook_declared [OF assms(1)])

lemma playbook_skips_host_check:
  assumes "PlaybookScript_init (module_globals c) = Inr (s, p)" "conforms p a"
  shows "check_pattern w path a s' = (s', Return ())"
  using playbook_namespace_shape(1) [OF assms] by (simp add: check_pattern_def)

lemma playbook_namespace_conforms:
  "PlaybookScript_init (module_globals c) = Inr (s, p) \<Longrightarrow> conforms p playbook_namespace"
  by (simp add: conforms_def playbook_declared playbook_namespace_def)

text \<open>In playbook mode the inventory check ends the process as the pipeline says.\<close>

lemma playbook_missing_inventory:
  assumes "\<not> version a" "inventory a = None"
  shows "playbook_process c w (Accepted a) =
     (new_script\<lparr>effects := [Message ''Could not detect default inventory path'']\<rparr>, Exit 1)"
proof -
  from parse_args_missing_inventory [OF assms, of w new_script]
  have "parse_args w a new_script =
      (new_script\<lparr>effects := effects new_script @
         [Message ''Could not detect default inventory path'']\<rparr>, Exit 1)"
    by blast
  from controller_parse_args_Exit [OF this] show ?thesis
    by (simp add: playbook_process_Accepted playbook_program_controller new_script_def)
qed

text \<open>
  In playbook mode a namespace that passes the first three checks, asks for no password
  and names no vault file is returned with both passwords \<open>None\<close> and the vault secret
  \<^verbatim>\<open>False\<close>.
\<close>

lemma parse_args_returns_absent_secrets:
  assumes "\<not> version a" "inventory a = Some path" "pattern a = None"
    "\<not> ask_pass a" "\<not> ask_become_pass a" "snd (resolve_mode a s) = Return ()"
    "vault_password_file a = Some None"
  shows "parse_args w a s =
     (fst (resolve_mode a s),
      Return \<lparr>parsed = a, remote_pass = None, become_pass = None, vault_pass = VaultFalse\<rparr>)"
proof -
  obtain s6 where m: "resolve_mode a s = (s6, Return ())"
    using assms(6) by (cases "resolve_mode a s") auto
  with assms show ?thesis
    by (simp add: parse_args_def check_version_def check_inventory_def check_pattern_def
        resolve_remote_pass_def resolve_become_pass_def resolve_vault_def truthy_def
        and_then_def)
qed




text \<open>
  C8, evaluated on the code. Ad-hoc mode, no version flag, no inventory path: the
  constructor of \<^verbatim>\<open>AnsibleScript\<close> raises \<^verbatim>\<open>NameError\<close> before \<^verbatim>\<open>parse_args\<close> is called,
  so the process prints no inventory message and does not exit through line 88.
\<close>

theorem adhoc_missing_inventory_raises:
  "\<not> version (adhoc_namespace\<lparr>inventory := None\<rparr>) \<and>
   inventory (adhoc_namespace\<lparr>inventory := None\<rparr>) = None \<and>
   adhoc_program (example_constants\<lparr>DEFAULT_HOST_LIST := PNone\<rparr>) example_world
      (adhoc_namespace\<lparr>inventory := None\<rparr>) =
     (new_script, Raise (NameError ''DEFAULT_become_USER'')) \<and>
   adhoc_program (example_constants\<lparr>DEFAULT_HOST_LIST := PNone\<rparr>) example_world
      (adhoc_namespace\<lparr>inventory := None\<rparr>) \<noteq>
     (new_script\<lparr>effects := [Message ''Could not detect default inventory path'']\<rparr>, Exit 1)"
  by (simp add: adhoc_program_def AnsibleScript_init_fails adhoc_namespace_def)

text \<open>
  C9, evaluated on the code. Ad-hoc mode, inventory with the hosts \<open>a\<close> and \<open>b\<close>, pattern
  \<open>c\<close>: the constructor of \<^verbatim>\<open>AnsibleScript\<close> raises \<^verbatim>\<open>NameError\<close> before \<^verbatim>\<open>parse_args\<close>
  is called, so the hosts are not listed, \<^verbatim>\<open>No hosts matched\<close> is not printed and the
  process does not exit through line 91.
\<close>

theorem adhoc_no_hosts_raises:
  "list_hosts example_world ''/etc/ansible/hosts'' (PatternList [''c'']) = Inr [] \<and>
   adhoc_program example_constants example_world
      (adhoc_namespace\<lparr>pattern := Some (PatternList [''c''])\<rparr>) =
     (new_script, Raise (NameError ''DEFAULT_become_USER'')) \<and>
   adhoc_program example_constants example_world
      (adhoc_namespace\<lparr>pattern := Some (PatternList [''c''])\<rparr>) \<noteq>
     (new_script\<lparr>effects :=
        [ListHosts ''/etc/ansible/hosts'' (PatternList [''c'']), Message ''No hosts matched'']\<rparr>,
      Exit 1)"
  by (simp add: adhoc_program_def AnsibleScript_init_fails)

text \<open>
  C10, evaluated on the code. Ad-hoc mode, no password asked, no vault file: the
  constructor of \<^verbatim>\<open>AnsibleScript\<close> raises \<^verbatim>\<open>NameError\<close>, so nothing is resolved; and
  \<^verbatim>\<open>parse_args\<close> itself, applied to a namespace of the ad-hoc schema, raises
  \<^verbatim>\<open>AttributeError\<close> at line 108 after the host check, because that schema declares no
  \<^verbatim>\<open>vault_password_file\<close>: the vault secret never becomes \<^verbatim>\<open>False\<close> and no namespace
  is returned.
\<close>

theorem adhoc_secrets_never_resolved:
  "\<not> ask_pass adhoc_namespace \<and> \<not> ask_become_pass adhoc_namespace \<and>
   adhoc_program example_constants example_world adhoc_namespace =
     (new_script, Raise (NameError ''DEFAULT_become_USER'')) \<and>
   resolve_vault example_world adhoc_namespace new_script =
     (new_script, Raise (AttributeError ''vault_password_file'')) \<and>
   parse_args example_world adhoc_namespace new_script =
     (new_script\<lparr>effects := [ListHosts ''/etc/ansible/hosts'' (PatternList [''a''])]\<rparr>,
      Raise (AttributeError ''vault_password_file''))"
  by (simp add: adhoc_program_def AnsibleScript_init_fails parse_args_def step_defs
      adhoc_namespace_def new_script_def)

text \<open>
  C3, evaluated on the code. Playbook mode, script fresh from \<^verbatim>\<open>__init__\<close>, SIGINT
  delivered while \<^verbatim>\<open>runner.run()\<close> executes: since \<^verbatim>\<open>self.runner\<close> is still \<^verbatim>\<open>None\<close>
  (see C2) the handler ends the process with code 1 on the spot. The adapter yields no
  \<^verbatim>\<open>RunnerError\<close> and no message is printed. The idle case is as the claim says: exit
  with code 1, no message.
\<close>

theorem interrupt_in_flight_exits_hard:
  "SIGINT new_script = (new_script, Exit 1 :: unit outcome) \<and>
   playbook_process example_constants interrupted_world (Accepted playbook_namespace) =
     (new_script\<lparr>effects := [RunnerNew, RunnerRun]\<rparr>, Exit 1)"
  by (simp add: playbook_process_Accepted playbook_program_controller controller_def
      parse_args_def step_defs playbook_namespace_def new_script_def
      PlaybookScript_run_def playbook_kwargs_def percent_d_5 runner_run_def
      except_AnsibleError_def SIGINT_def truthy_def interrupted_world_def example_world_def)

end
